theory Spec2Isabelle
  imports Complex_Main "HOL-Library.Word"
begin

section \<open>Python strings and integers\<close>

text \<open>
  A Python \<open>str\<close> is modelled as a \<open>string\<close> whose characters are the code points
  below 256, so \<open>length\<close> counts code points as Python does. The string methods below
  are the Python ones restricted to that range. The literal texts of the source that
  lie outside it (Cyrillic words, pictographs) are never inspected by the code; they
  appear in the model as constructors of the datatypes \<open>call_text\<close> and \<open>line\<close>, one per
  literal or format string, carrying the interpolated values.
\<close>

definition isspace :: "char \<Rightarrow> bool" where
  \<comment> \<open>\<open>str.isspace\<close> on one character: TAB..CR, FS..US, SPACE, NEL, NBSP.\<close>
  "isspace c =
     (let n = (of_char c :: nat)
      in (9 \<le> n \<and> n \<le> 13) \<or> (28 \<le> n \<and> n \<le> 32) \<or> n = 133 \<or> n = 160)"

definition strip :: "string \<Rightarrow> string" where
  \<comment> \<open>\<open>s.strip()\<close>\<close>
  "strip s = rev (dropWhile isspace (rev (dropWhile isspace s)))"

definition startswith :: "string \<Rightarrow> string \<Rightarrow> bool" where
  \<comment> \<open>\<open>s.startswith(p)\<close>\<close>
  "startswith s p = (take (length p) s = p)"

fun split_on :: "char \<Rightarrow> string \<Rightarrow> string list" where
  \<comment> \<open>\<open>s.split(sep)\<close> for a one-character separator: \<open>''''.split(sep) = ['''']\<close>\<close>
  "split_on sep [] = [[]]"
| "split_on sep (c # cs) =
     (if c = sep then [] # split_on sep cs
      else (case split_on sep cs of
              [] \<Rightarrow> [[c]]
            | w # ws \<Rightarrow> (c # w) # ws))"

fun split_ws :: "string \<Rightarrow> string list" where
  \<comment> \<open>\<open>s.split()\<close>: the maximal runs of non-whitespace characters\<close>
  "split_ws [] = []"
| "split_ws (c # cs) =
     (if isspace c then split_ws cs
      else (case cs of
              [] \<Rightarrow> [[c]]
            | d # ds \<Rightarrow>
                if isspace d then [c] # split_ws cs
                else (case split_ws cs of
                        [] \<Rightarrow> [[c]]
                      | w # ws \<Rightarrow> (c # w) # ws)))"

definition replace_char :: "char \<Rightarrow> char \<Rightarrow> string \<Rightarrow> string" where
  \<comment> \<open>\<open>s.replace(a, b)\<close> for one-character \<open>a\<close> and \<open>b\<close>\<close>
  "replace_char a b s = map (\<lambda>c. if c = a then b else c) s"

definition is_decimal :: "char \<Rightarrow> bool" where
  \<comment> \<open>the decimal digits \<open>0\<close>..\<open>9\<close>, the only ones \<open>int()\<close> reads below 256\<close>
  "is_decimal c = (let n = (of_char c :: nat) in 48 \<le> n \<and> n \<le> 57)"

definition isdigit_char :: "char \<Rightarrow> bool" where
  \<comment> \<open>\<open>str.isdigit\<close> on one character: the decimal digits and superscript 2, 3, 1\<close>
  "isdigit_char c =
     (let n = (of_char c :: nat) in (48 \<le> n \<and> n \<le> 57) \<or> n = 178 \<or> n = 179 \<or> n = 185)"

definition isdigit :: "string \<Rightarrow> bool" where
  \<comment> \<open>\<open>s.isdigit()\<close>: false on the empty string\<close>
  "isdigit s = (s \<noteq> [] \<and> list_all isdigit_char s)"

definition digit_value :: "char \<Rightarrow> nat" where
  "digit_value c = of_char c - 48"

definition digit_char :: "nat \<Rightarrow> char" where
  "digit_char d = ''0123456789'' ! d"

fun dec_value :: "nat \<Rightarrow> string \<Rightarrow> nat option" where
  \<comment> \<open>the digits after the first one; a single underscore may separate two digits\<close>
  "dec_value acc [] = Some acc"
| "dec_value acc (c # cs) =
     (if is_decimal c then dec_value (10 * acc + digit_value c) cs
      else if c = CHR ''_'' then
        (case cs of
           [] \<Rightarrow> None
         | d # ds \<Rightarrow>
             if is_decimal d then dec_value (10 * acc + digit_value d) ds else None)
      else None)"

definition int_max_str_digits :: nat where
  \<comment> \<open>the limit of CPython on the digits of a conversion between \<open>int\<close> and \<open>str\<close>,
      at its default\<close>
  "int_max_str_digits = 4300"

definition dec_literal :: "string \<Rightarrow> nat option" where
  \<comment> \<open>the digits of a literal, of which there may be no more than the limit\<close>
  "dec_literal s =
     (if length (filter is_decimal s) > int_max_str_digits then None
      else (case s of
              [] \<Rightarrow> None
            | c # cs \<Rightarrow> if is_decimal c then dec_value (digit_value c) cs else None))"

definition int_space :: "char \<Rightarrow> bool" where
  \<comment> \<open>the whitespace \<open>int()\<close> accepts around a literal: TAB..CR and SPACE, and NEL and
      NBSP, which it reads as spaces; unlike \<open>str.strip\<close> it does not accept FS..US\<close>
  "int_space c =
     (let n = (of_char c :: nat) in (9 \<le> n \<and> n \<le> 13) \<or> n = 32 \<or> n = 133 \<or> n = 160)"

definition int_strip :: "string \<Rightarrow> string" where
  "int_strip s = rev (dropWhile int_space (rev (dropWhile int_space s)))"

definition py_int :: "string \<Rightarrow> int option" where
  \<comment> \<open>\<open>int(s)\<close>: surrounding whitespace, an optional sign, decimal digits;
      \<open>None\<close> stands for the \<open>ValueError\<close>\<close>
  "py_int s =
     (case int_strip s of
        [] \<Rightarrow> None
      | c # cs \<Rightarrow>
          if c = CHR ''-'' then map_option (\<lambda>n. - int n) (dec_literal cs)
          else if c = CHR ''+'' then map_option int (dec_literal cs)
          else map_option int (dec_literal (c # cs)))"

fun str_nat :: "nat \<Rightarrow> string" where
  "str_nat n = (if n < 10 then [digit_char n] else str_nat (n div 10) @ [digit_char (n mod 10)])"

declare str_nat.simps [simp del]

definition decimal :: "int \<Rightarrow> string" where
  \<comment> \<open>the decimal text of an integer\<close>
  "decimal n = (if n < 0 then CHR ''-'' # str_nat (nat (- n)) else str_nat (nat n))"


fun contains :: "string \<Rightarrow> string \<Rightarrow> bool" where
  \<comment> \<open>\<open>p in s\<close>: \<open>p\<close> occurs in \<open>s\<close> as a contiguous run\<close>
  "contains [] p = (p = [])"
| "contains (c # cs) p = (startswith (c # cs) p \<or> contains cs p)"

definition small_letters :: string where
  \<comment> \<open>the small letters below 256 whose capital is below 256 too: a..z, then the
      accented ones from 224 to 254 but for the division sign\<close>
  "small_letters =
     ''abcdefghijklmnopqrstuvwxyz'' @
     [CHR 0xE0, CHR 0xE1, CHR 0xE2, CHR 0xE3, CHR 0xE4, CHR 0xE5, CHR 0xE6, CHR 0xE7,
     CHR 0xE8, CHR 0xE9, CHR 0xEA, CHR 0xEB, CHR 0xEC, CHR 0xED, CHR 0xEE, CHR 0xEF,
     CHR 0xF0, CHR 0xF1, CHR 0xF2, CHR 0xF3, CHR 0xF4, CHR 0xF5, CHR 0xF6, CHR 0xF8,
     CHR 0xF9, CHR 0xFA, CHR 0xFB, CHR 0xFC, CHR 0xFD, CHR 0xFE]"

definition capital_letters :: string where
  \<comment> \<open>their capitals, in the same order\<close>
  "capital_letters =
     ''ABCDEFGHIJKLMNOPQRSTUVWXYZ'' @
     [CHR 0xC0, CHR 0xC1, CHR 0xC2, CHR 0xC3, CHR 0xC4, CHR 0xC5, CHR 0xC6, CHR 0xC7,
     CHR 0xC8, CHR 0xC9, CHR 0xCA, CHR 0xCB, CHR 0xCC, CHR 0xCD, CHR 0xCE, CHR 0xCF,
     CHR 0xD0, CHR 0xD1, CHR 0xD2, CHR 0xD3, CHR 0xD4, CHR 0xD5, CHR 0xD6, CHR 0xD8,
     CHR 0xD9, CHR 0xDA, CHR 0xDB, CHR 0xDC, CHR 0xDD, CHR 0xDE]"

definition upper_char :: "char \<Rightarrow> string" where
  \<comment> \<open>\<open>c.upper()\<close>: a small letter becomes its capital, sharp s becomes SS; the micro
      sign and y with diaeresis, whose capitals lie beyond 255, stand here unchanged\<close>
  "upper_char c =
     (case map_of (zip small_letters capital_letters) c of
        Some C \<Rightarrow> [C]
      | None \<Rightarrow> if c = CHR 0xDF then ''SS'' else [c])"

definition upper :: "string \<Rightarrow> string" where
  \<comment> \<open>\<open>s.upper()\<close>\<close>
  "upper s = concat (map upper_char s)"

section \<open>Exceptions\<close>

text \<open>
  The instances of Python's \<open>Exception\<close> that the code tells apart: the two Telethon
  errors it names, \<open>ValueError\<close>, and every other one, with the text \<open>str(e)\<close> where
  the code reads it. Interrupts of the process, which are no instances of \<open>Exception\<close>,
  are outside the model.
\<close>

datatype exn =
    UserPrivacyRestrictedError
  | FloodWaitError int
  | ValueError string
  | OtherException string

section \<open>The configuration file\<close>

text \<open>
  The file \<open>caller_config.txt\<close> is in one of four states: the test of its existence
  itself fails, as in a directory the process may not search; or it is missing; or it
  is present but fails to open or to decode; or it is present with a text. Text mode is
  the one of a POSIX system with an encoding that holds every character: a newline is
  written as it is, and reading turns \<open>CR LF\<close> and \<open>CR\<close> into \<open>LF\<close>.
\<close>

datatype config_file = Inaccessible | Missing | Unreadable | Contents string

definition path_exists :: "config_file \<Rightarrow> exn + bool" where
  \<comment> \<open>\<open>Path(CONFIG_FILE).exists()\<close>: false for a missing file, and raising the
      \<open>OSError\<close> of \<open>stat\<close> when that is another one, such as \<open>PermissionError\<close>\<close>
  "path_exists f =
     (case f of
        Inaccessible \<Rightarrow> Inl (OtherException ''PermissionError'')
      | Missing \<Rightarrow> Inr False
      | Unreadable \<Rightarrow> Inr True
      | Contents c \<Rightarrow> Inr True)"

fun universal_newlines :: "string \<Rightarrow> string" where
  "universal_newlines [] = []"
| "universal_newlines (c # cs) =
     (if c = CHR 0x0D then
        (case cs of
           [] \<Rightarrow> [CHR 0x0A]
         | d # ds \<Rightarrow>
             if d = CHR 0x0A then CHR 0x0A # universal_newlines ds
             else CHR 0x0A # universal_newlines cs)
      else c # universal_newlines cs)"

definition read_text :: "config_file \<Rightarrow> exn + string" where
  \<comment> \<open>\<open>open(CONFIG_FILE, 'r')\<close> and \<open>f.read()\<close>\<close>
  "read_text f =
     (case f of
        Inaccessible \<Rightarrow> Inl (OtherException ''PermissionError'')
      | Missing \<Rightarrow> Inl (OtherException ''FileNotFoundError'')
      | Unreadable \<Rightarrow> Inl (OtherException ''OSError'')
      | Contents c \<Rightarrow> Inr (universal_newlines c))"

definition load_config_try :: "config_file \<Rightarrow> exn + (int \<times> string) option" where
  \<comment> \<open>the body of the \<open>try\<close> of \<open>load_config\<close>; \<open>Inr None\<close> when the \<open>if\<close> falls through\<close>
  "load_config_try f =
     (case read_text f of
        Inl e \<Rightarrow> Inl e
      | Inr txt \<Rightarrow>
          (let lines = split_on (CHR 0x0A) (strip txt)
           in if length lines \<ge> 2 then
                (case py_int (lines ! 0) of
                   None \<Rightarrow> Inl (ValueError ''invalid literal for int()'')
                 | Some n \<Rightarrow> Inr (Some (n, lines ! 1)))
              else Inr None))"

definition load_config :: "config_file \<Rightarrow> exn + (int option \<times> string option)" where
  \<comment> \<open>the test of existence stands before the \<open>try\<close>: what it raises leaves
      \<open>load_config\<close>, what the body of the \<open>try\<close> raises is dropped\<close>
  "load_config f =
     (case path_exists f of
        Inl e \<Rightarrow> Inl e
      | Inr present \<Rightarrow>
          if present then
            (case load_config_try f of
               Inr (Some (n, h)) \<Rightarrow> Inr (Some n, Some h)
             | Inr None \<Rightarrow> Inr (None, None)
             | Inl e \<Rightarrow> Inr (None, None))
          else Inr (None, None))"


section \<open>Data model\<close>

datatype CallStatus = SUCCESS | PRIVACY | NOT_FOUND | FLOOD | FAILED

text \<open>
  The texts a \<open>CallResult\<close> carries, one constructor per literal or format string of
  \<open>call\<close>, in the order of the source: the not-found text, the text with the ring
  duration, the text of the privacy restriction, the text with the seconds to wait,
  the shorter privacy text, and the text of an exception as it is.
\<close>

datatype call_text =
    Text_user_not_found
  | Text_call_lasted real
  | Text_forbidden_by_privacy_settings
  | Text_wait_seconds int
  | Text_calls_forbidden
  | Text_of string

record CallResult =
  username :: string
  status :: CallStatus
  message :: call_text

text \<open>The id of an entity is a 64-bit integer of the protocol.\<close>

record user =
  user_username :: "string option"
  user_id :: "64 word"

record phone_call =
  call_id :: int
  access_hash :: int

datatype entity_ref = By_id int | By_name string

type_synonym byte = "8 word"

text \<open>The lines \<open>call\<close>, \<open>call_multiple\<close> and the prompt print, one constructor per format string.\<close>

datatype line =
    Line_calling string
  | Line_done real
  | Line_privacy_forbids_calls string
  | Line_flood_wait int
  | Line_privacy string
  | Line_error string string
  | Line_progress nat nat string
  | Line_calling_many nat
  | Line_finished

text \<open>
  What a run does to the outside, in the order it happens: the calls of the Telethon
  client with their arguments, the sleeps, the draws from the entropy source, the lines
  printed. The protocol description and the flags of the call request are constants of
  the source and left out.
\<close>

datatype event =
    Get_entity entity_ref
  | Send_message user string
  | Sleep real
  | Randbits nat nat
  | Randbelow nat nat
  | Request_call user "byte list" nat
  | Discard_call int int
  | Print line

text \<open>
  The outside answers as a function of what has happened so far, so that any behaviour
  of the client is covered: the same request may succeed once and fail later. \<open>sha256\<close>
  is the digest of \<open>hashlib\<close>.
\<close>

record env =
  get_entity :: "event list \<Rightarrow> entity_ref \<Rightarrow> exn + user"
  send_message :: "event list \<Rightarrow> user \<Rightarrow> string \<Rightarrow> exn option"
  request_call :: "event list \<Rightarrow> user \<Rightarrow> byte list \<Rightarrow> nat \<Rightarrow> exn + phone_call"
  discard_call :: "event list \<Rightarrow> int \<Rightarrow> int \<Rightarrow> exn option"
  entropy :: "event list \<Rightarrow> nat"
  sha256 :: "byte list \<Rightarrow> byte list"

section \<open>Diffie-Hellman parameters\<close>

definition DH_PRIME :: nat where
  "DH_PRIME =
     0xC71CAEB9C6B1C9048E6C522F70F13F73980D40238E3E21C14934D037563D930F48198A0AA7C14058229493D22530F4DBFA336F6E0AC925139543AED44CCE7C3720FD51F69458705AC68CD4FE6B6B13ABDC9746512969328454F18FAF8C595F642477FE96BB2A941D5BCD1D4AC8CC49880708FA9B378E3C4F3A9060BEE67CF9A4A4A695811051907E162753B56B0F6B410DBA74D8A84B2A14B3144E0EF1284754FD17ED950D5965B4B9DD46582DB1178D169C6BC465B0D6FF9CA3928FEF5B9AE4E418FC15E83EBEA0F87FA9FF5EED70050DED2849F47BF959D956850CE929851F0D8115F635B105EE2E4E15D04B2454BF6F4FADF034B10403119CD8E3B92FCC5B"

definition DH_GENERATOR :: nat where
  "DH_GENERATOR = 3"

fun big_endian :: "nat \<Rightarrow> nat \<Rightarrow> byte list" where
  \<comment> \<open>the lowest \<open>len\<close> base-256 digits of \<open>n\<close>, the most significant first\<close>
  "big_endian 0 n = []"
| "big_endian (Suc len) n = big_endian len (n div 256) @ [of_nat (n mod 256)]"

definition to_bytes :: "nat \<Rightarrow> nat \<Rightarrow> exn + byte list" where
  \<comment> \<open>\<open>n.to_bytes(len, byteorder='big')\<close>, an \<open>OverflowError\<close> when \<open>n\<close> does not fit\<close>
  "to_bytes n len =
     (if n < 256 ^ len then Inr (big_endian len n) else Inl (OtherException ''OverflowError''))"


definition generate_dh_params :: "env \<Rightarrow> event list \<Rightarrow> (exn + byte list \<times> nat) \<times> event list" where
  "generate_dh_params E tr =
     (let private_key = entropy E tr mod 2 ^ 256;
          tr1 = tr @ [Randbits 256 private_key];
          g_a = DH_GENERATOR ^ private_key mod DH_PRIME
      in case to_bytes g_a 256 of
           Inl e \<Rightarrow> (Inl e, tr1)
         | Inr g_a_bytes \<Rightarrow> (Inr (sha256 E g_a_bytes, g_a), tr1))"

section \<open>Placing a call\<close>

definition target_of :: "string \<Rightarrow> string" where
  \<comment> \<open>the first lines of \<open>call\<close>: the name as it is looked up\<close>
  "target_of uname =
     (let target = strip uname
      in if startswith target ''@'' then drop 1 target else target)"

definition resolve :: "env \<Rightarrow> string \<Rightarrow> event list \<Rightarrow> (exn + user) \<times> event list" where
  \<comment> \<open>the body of the inner \<open>try\<close>: \<open>int(target)\<close> may raise before the client is asked\<close>
  "resolve E target tr =
     (if isdigit target then
        (case py_int target of
           None \<Rightarrow> (Inl (ValueError ''invalid literal for int()''), tr)
         | Some n \<Rightarrow> (get_entity E tr (By_id n), tr @ [Get_entity (By_id n)]))
      else (get_entity E tr (By_name target), tr @ [Get_entity (By_name target)]))"

definition user_display :: "user \<Rightarrow> string" where
  "user_display u =
     (case user_username u of
        None \<Rightarrow> ''ID:'' @ decimal (sint (user_id u))
      | Some n \<Rightarrow> if n \<noteq> [] then ''@'' @ n else ''ID:'' @ decimal (sint (user_id u)))"

definition send_pre_message :: "env \<Rightarrow> user \<Rightarrow> string option \<Rightarrow> event list \<Rightarrow> exn option \<times> event list" where
  \<comment> \<open>\<open>if message:\<close> holds for a message that is neither absent nor empty\<close>
  "send_pre_message E u msg tr =
     (case msg of
        None \<Rightarrow> (None, tr)
      | Some m \<Rightarrow>
          if m \<noteq> [] then
            (case send_message E tr u m of
               Some e \<Rightarrow> (Some e, tr @ [Send_message u m])
             | None \<Rightarrow> (None, tr @ [Send_message u m, Sleep 0.3]))
          else (None, tr))"

definition ring :: "env \<Rightarrow> string \<Rightarrow> real \<Rightarrow> user \<Rightarrow> event list \<Rightarrow> (exn + CallResult) \<times> event list" where
  \<comment> \<open>from the DH parameters to the \<open>return\<close> of the success path; what the discard
      raises is caught and dropped\<close>
  "ring E uname duration u tr =
     (case generate_dh_params E tr of
        (Inl e, tr1) \<Rightarrow> (Inl e, tr1)
      | (Inr (g_a_hash, g_a), tr1) \<Rightarrow>
          (let random_id = entropy E tr1 mod 2 ^ 31;
               tr2 = tr1 @ [Randbelow (2 ^ 31) random_id]
           in case request_call E tr2 u g_a_hash random_id of
                Inl e \<Rightarrow> (Inl e, tr2 @ [Request_call u g_a_hash random_id])
              | Inr pc \<Rightarrow>
                  (let tr3 = tr2 @ [Request_call u g_a_hash random_id,
                                    Print (Line_calling (user_display u)),
                                    Sleep duration];
                       tr4 = tr3 @ [Discard_call (call_id pc) (access_hash pc)];
                       tr5 = (case discard_call E tr3 (call_id pc) (access_hash pc) of
                                Some e \<Rightarrow> tr4
                              | None \<Rightarrow> tr4)
                   in (Inr \<lparr>username = uname, status = SUCCESS, message = Text_call_lasted duration\<rparr>,
                       tr5 @ [Print (Line_done duration)]))))"

definition call_try :: "env \<Rightarrow> string \<Rightarrow> real \<Rightarrow> string option \<Rightarrow> event list \<Rightarrow> (exn + CallResult) \<times> event list" where
  \<comment> \<open>the body of the outer \<open>try\<close>: \<open>Inr\<close> is a \<open>return\<close>, \<open>Inl\<close> an exception that leaves it\<close>
  "call_try E uname duration msg tr =
     (case resolve E (target_of uname) tr of
        (Inl e, tr1) \<Rightarrow>
          (case e of
             ValueError m \<Rightarrow>
               (Inr \<lparr>username = uname, status = NOT_FOUND, message = Text_user_not_found\<rparr>, tr1)
           | _ \<Rightarrow> (Inl e, tr1))
      | (Inr u, tr1) \<Rightarrow>
          (case send_pre_message E u msg tr1 of
             (Some e, tr2) \<Rightarrow> (Inl e, tr2)
           | (None, tr2) \<Rightarrow> ring E uname duration u tr2))"

definition call_failed :: "string \<Rightarrow> string \<Rightarrow> event list \<Rightarrow> CallResult \<times> event list" where
  \<comment> \<open>the handler \<open>except Exception as e\<close>, with \<open>error_msg = str(e)\<close>\<close>
  "call_failed uname error_msg tr =
     (if contains (upper error_msg) ''PRIVACY'' then
        (\<lparr>username = uname, status = PRIVACY, message = Text_calls_forbidden\<rparr>,
         tr @ [Print (Line_privacy uname)])
      else
        (\<lparr>username = uname, status = FAILED, message = Text_of error_msg\<rparr>,
         tr @ [Print (Line_error uname (take 50 error_msg))]))"

definition call :: "env \<Rightarrow> string \<Rightarrow> real \<Rightarrow> string option \<Rightarrow> event list \<Rightarrow> CallResult \<times> event list" where
  "call E uname duration msg tr =
     (case call_try E uname duration msg tr of
        (Inr r, tr1) \<Rightarrow> (r, tr1)
      | (Inl e, tr1) \<Rightarrow>
          (case e of
             UserPrivacyRestrictedError \<Rightarrow>
               (\<lparr>username = uname, status = PRIVACY, message = Text_forbidden_by_privacy_settings\<rparr>,
                tr1 @ [Print (Line_privacy_forbids_calls uname)])
           | FloodWaitError seconds \<Rightarrow>
               (\<lparr>username = uname, status = FLOOD, message = Text_wait_seconds seconds\<rparr>,
                tr1 @ [Print (Line_flood_wait seconds)])
           | ValueError m \<Rightarrow> call_failed uname m tr1
           | OtherException m \<Rightarrow> call_failed uname m tr1))"

fun call_multiple_from :: "env \<Rightarrow> nat \<Rightarrow> nat \<Rightarrow> string list \<Rightarrow> real \<Rightarrow> real \<Rightarrow> event list \<Rightarrow> CallResult list \<times> event list" where
  \<comment> \<open>the loop of \<open>call_multiple\<close> from index \<open>i\<close> on, \<open>n\<close> being \<open>len(usernames)\<close>;
      \<open>call\<close> is given no message\<close>
  "call_multiple_from E n i [] duration delay tr = ([], tr)"
| "call_multiple_from E n i (uname # rest) duration delay tr =
     (let tr1 = tr @ [Print (Line_progress i n uname)];
          (result, tr2) = call E uname duration None tr1;
          tr3 = (if i < n then tr2 @ [Sleep delay] else tr2);
          (results, tr4) = call_multiple_from E n (i + 1) rest duration delay tr3
      in (result # results, tr4))"

definition call_multiple :: "env \<Rightarrow> string list \<Rightarrow> real \<Rightarrow> real \<Rightarrow> event list \<Rightarrow> CallResult list \<times> event list" where
  "call_multiple E usernames duration delay tr =
     call_multiple_from E (length usernames) 1 usernames duration delay tr"

section \<open>The prompt\<close>

definition parse_usernames :: "string \<Rightarrow> string list" where
  \<comment> \<open>the names of a line that is no command, separated by blanks or commas\<close>
  "parse_usernames user_input =
     filter (\<lambda>part. part \<noteq> []) (map strip (split_ws (replace_char (CHR '','') (CHR '' '') user_input)))"

definition place_calls :: "env \<Rightarrow> real \<Rightarrow> string option \<Rightarrow> string \<Rightarrow> event list \<Rightarrow> event list" where
  \<comment> \<open>the branch of \<open>interactive_mode\<close> for a line that is no command, under the
      settings \<open>ring_duration\<close> and \<open>pre_message\<close>; the delay of \<open>call_multiple\<close> is its
      default, one second\<close>
  "place_calls E ring_duration pre_message user_input tr =
     (let usernames = parse_usernames user_input
      in if usernames = [] then tr
         else if length usernames = 1 then
           snd (call E (usernames ! 0) ring_duration pre_message tr)
         else
           (let tr1 = tr @ [Print (Line_calling_many (length usernames))];
                (results, tr2) = call_multiple E usernames ring_duration 1 tr1
            in tr2 @ [Print Line_finished]))"

section \<open>The documented status\<close>

text \<open>
  The status that the amended claim on the mapping of exceptions gives a call attempt,
  read off what the client answers. \<open>handled_status\<close> is the status of an exception
  raised by a request: \<open>PRIVACY\<close> for \<open>UserPrivacyRestrictedError\<close>, \<open>FLOOD\<close> for
  \<open>FloodWaitError\<close>, and for any other \<open>FAILED\<close>, or \<open>PRIVACY\<close> when its text in capitals
  holds that word. \<open>documented_status\<close> follows the attempt: a target that cannot be
  looked up, or a lookup that raises \<open>ValueError\<close>, gives \<open>NOT_FOUND\<close>; an exception of
  the lookup, of the sending of the message or of the call request gives its handled
  status; a call request that is answered gives \<open>SUCCESS\<close>, whatever the discard does.
\<close>

definition handled_status :: "exn \<Rightarrow> CallStatus" where
  "handled_status e =
     (case e of
        UserPrivacyRestrictedError \<Rightarrow> PRIVACY
      | FloodWaitError seconds \<Rightarrow> FLOOD
      | ValueError m \<Rightarrow> if contains (upper m) ''PRIVACY'' then PRIVACY else FAILED
      | OtherException m \<Rightarrow> if contains (upper m) ''PRIVACY'' then PRIVACY else FAILED)"

definition documented_status :: "env \<Rightarrow> string \<Rightarrow> string option \<Rightarrow> event list \<Rightarrow> CallStatus" where
  "documented_status E uname msg tr =
     (let t = target_of uname
      in case (if isdigit t then map_option By_id (py_int t) else Some (By_name t)) of
           None \<Rightarrow> NOT_FOUND
         | Some ref \<Rightarrow>
             (case get_entity E tr ref of
                Inl e \<Rightarrow> (case e of ValueError m \<Rightarrow> NOT_FOUND | _ \<Rightarrow> handled_status e)
              | Inr u \<Rightarrow>
                  (let tr1 = tr @ [Get_entity ref];
                       m = (case msg of None \<Rightarrow> [] | Some m \<Rightarrow> m)
                   in case (if m \<noteq> [] then send_message E tr1 u m else None) of
                        Some e \<Rightarrow> handled_status e
                      | None \<Rightarrow>
                          (let tr2 = (if m \<noteq> [] then tr1 @ [Send_message u m, Sleep 0.3] else tr1);
                               x = entropy E tr2 mod 2 ^ 256;
                               h = sha256 E (big_endian 256 (3 ^ x mod DH_PRIME));
                               rid = entropy E (tr2 @ [Randbits 256 x]) mod 2 ^ 31
                           in case request_call E (tr2 @ [Randbits 256 x, Randbelow (2 ^ 31) rid]) u h rid of
                                Inl e \<Rightarrow> handled_status e
                              | Inr pc \<Rightarrow> SUCCESS))))"

section \<open>Reading a run\<close>

text \<open>
  What a list of events holds of one kind: the entities looked up, the messages sent,
  the calls discarded.
\<close>

fun lookups :: "event list \<Rightarrow> entity_ref list" where
  "lookups [] = []"
| "lookups (Get_entity r # evs) = r # lookups evs"
| "lookups (ev # evs) = lookups evs"

fun sent :: "event list \<Rightarrow> (user \<times> string) list" where
  "sent [] = []"
| "sent (Send_message u m # evs) = (u, m) # sent evs"
| "sent (ev # evs) = sent evs"

fun discarded :: "event list \<Rightarrow> (int \<times> int) list" where
  "discarded [] = []"
| "discarded (Discard_call i a # evs) = (i, a) # discarded evs"
| "discarded (ev # evs) = discarded evs"

section \<open>A sample outside\<close>

text \<open>
  An outside where every request succeeds, used to run the model on concrete inputs:
  every name resolves to the same user, the entropy source returns the number of events
  so far, and a constant stands for the digest.
\<close>

definition alice :: user where
  "alice = \<lparr>user_username = Some ''alice'', user_id = 7\<rparr>"

definition quiet_env :: env where
  "quiet_env =
     \<lparr>get_entity = (\<lambda>tr r. Inr alice),
      send_message = (\<lambda>tr u m. None),
      request_call = (\<lambda>tr u h rid. Inr \<lparr>call_id = 11, access_hash = 13\<rparr>),
      discard_call = (\<lambda>tr i a. None),
      entropy = (\<lambda>tr. length tr),
      sha256 = (\<lambda>bs. replicate 32 0)\<rparr>"

section \<open>Decimal conversion\<close>










lemma strip_plain: "s \<noteq> [] \<Longrightarrow> \<not> isspace (hd s) \<Longrightarrow> \<not> isspace (last s) \<Longrightarrow> strip s = s"
proof -
  assume a: "s \<noteq> []" "\<not> isspace (hd s)" "\<not> isspace (last s)"
  then have "dropWhile isspace s = s" by (cases s) auto
  moreover have "dropWhile isspace (rev s) = rev s"
    using a by (cases "rev s") (auto simp: hd_rev)
  ultimately show ?thesis by (simp add: strip_def)
qed












lemmas int_defs = py_int_def int_strip_def int_space_def dec_literal_def is_decimal_def
  digit_value_def int_max_str_digits_def

section \<open>The configuration file: results\<close>




text \<open>
  What \<open>load_config\<close> does in the states where the test of existence returns: it gives
  two absences or an integer with a string, the latter exactly for a text whose
  stripped form splits into at least two lines, the first of which \<open>int\<close> reads.
\<close>

lemma load_config_returns:
  assumes "f \<noteq> Inaccessible"
  shows "(load_config f = Inr (None, None) \<or> (\<exists>n h. load_config f = Inr (Some n, Some h))) \<and>
   ((load_config f = Inr (Some n, Some h)) =
      (\<exists>c. f = Contents c \<and>
         (let lines = split_on (CHR 0x0A) (strip (universal_newlines c))
          in 2 \<le> length lines \<and> py_int (lines ! 0) = Some n \<and> lines ! 1 = h)))"
  using assms
  by (cases f)
    (auto simp: load_config_def path_exists_def load_config_try_def read_text_def Let_def
      split: option.splits)

text \<open>
  C10 fails on the code. The test \<open>Path(CONFIG_FILE).exists()\<close> stands before the \<open>try\<close>
  of \<open>load_config\<close>; where it raises, as for a file in a directory that the process may
  not search, \<open>load_config\<close> raises too and does not return the two absences.
\<close>

theorem load_config_raises:
  "load_config Inaccessible = Inl (OtherException ''PermissionError'')"
  by (simp add: load_config_def path_exists_def)

section \<open>Diffie-Hellman parameters: results\<close>

lemma DH_PRIME_bounds: "2 ^ 2047 \<le> DH_PRIME \<and> DH_PRIME < 2 ^ 2048"
  by (simp add: DH_PRIME_def)




lemma g_a_fits: "g mod DH_PRIME < 256 ^ 256"
proof -
  have "g mod DH_PRIME < DH_PRIME" using DH_PRIME_bounds by (intro mod_less_divisor) simp
  also have "DH_PRIME < 2 ^ 2048" using DH_PRIME_bounds by simp
  also have "(2::nat) ^ 2048 = 256 ^ 256" by simp
  finally show ?thesis .
qed

lemma to_bytes_g_a: "to_bytes (g mod DH_PRIME) 256 = Inr (big_endian 256 (g mod DH_PRIME))"
  unfolding to_bytes_def by (simp only: g_a_fits if_True)

lemma generate_dh_params_eq:
  "generate_dh_params E tr =
     (Inr (sha256 E (big_endian 256 (3 ^ (entropy E tr mod 2 ^ 256) mod DH_PRIME)),
           3 ^ (entropy E tr mod 2 ^ 256) mod DH_PRIME),
      tr @ [Randbits 256 (entropy E tr mod 2 ^ 256)])"
  by (simp add: generate_dh_params_def to_bytes_g_a DH_GENERATOR_def Let_def)



section \<open>Placing a call: the shape of a run\<close>

lemma ring_eq:
  "ring E uname duration u tr =
     (let x = entropy E tr mod 2 ^ 256;
          h = sha256 E (big_endian 256 (3 ^ x mod DH_PRIME));
          rid = entropy E (tr @ [Randbits 256 x]) mod 2 ^ 31;
          tr2 = tr @ [Randbits 256 x, Randbelow (2 ^ 31) rid]
      in case request_call E tr2 u h rid of
           Inl e \<Rightarrow> (Inl e, tr2 @ [Request_call u h rid])
         | Inr pc \<Rightarrow>
             (Inr \<lparr>username = uname, status = SUCCESS, message = Text_call_lasted duration\<rparr>,
              tr2 @ [Request_call u h rid, Print (Line_calling (user_display u)), Sleep duration,
                     Discard_call (call_id pc) (access_hash pc), Print (Line_done duration)]))"
  by (simp add: ring_def generate_dh_params_eq Let_def split: sum.splits option.splits)

lemma resolve_Inr:
  assumes "resolve E t tr = (Inr u, tr1)"
  shows "\<exists>ref. tr1 = tr @ [Get_entity ref] \<and> get_entity E tr ref = Inr u \<and>
           (if isdigit t then map_option By_id (py_int t) else Some (By_name t)) = Some ref"
  using assms by (auto simp: resolve_def split: if_splits option.splits)

lemma send_pre_message_None:
  assumes "send_pre_message E u msg tr1 = (None, tr2)"
  shows "tr2 = tr1 @ (case msg of None \<Rightarrow> [] | Some m \<Rightarrow> if m \<noteq> [] then [Send_message u m, Sleep 0.3] else [])"
  using assms by (auto simp: send_pre_message_def split: if_splits option.splits)

lemma call_SUCCESS:
  assumes "status (fst (call E uname d msg tr)) = SUCCESS"
  shows "\<exists>u tr1 tr2 r. resolve E (target_of uname) tr = (Inr u, tr1) \<and>
           send_pre_message E u msg tr1 = (None, tr2) \<and>
           ring E uname d u tr2 = (Inr r, snd (call E uname d msg tr))"
  using assms
  by (auto simp: call_def call_try_def call_failed_def
      split: prod.splits sum.splits exn.splits option.splits if_splits)

lemma ring_Inr:
  assumes "ring E uname d u tr = (Inr r, tr3)"
  shows "\<exists>x rid pc. x < 2 ^ 256 \<and>
           r = \<lparr>username = uname, status = SUCCESS, message = Text_call_lasted d\<rparr> \<and>
           request_call E (tr @ [Randbits 256 x, Randbelow (2 ^ 31) rid]) u
             (sha256 E (big_endian 256 (3 ^ x mod DH_PRIME))) rid = Inr pc \<and>
           tr3 = tr @ [Randbits 256 x, Randbelow (2 ^ 31) rid,
                       Request_call u (sha256 E (big_endian 256 (3 ^ x mod DH_PRIME))) rid,
                       Print (Line_calling (user_display u)), Sleep d,
                       Discard_call (call_id pc) (access_hash pc), Print (Line_done d)]"
proof -
  let ?x = "entropy E tr mod 2 ^ 256"
  let ?rid = "entropy E (tr @ [Randbits 256 ?x]) mod 2 ^ 31"
  let ?h = "sha256 E (big_endian 256 (3 ^ ?x mod DH_PRIME))"
  have x: "?x < 2 ^ 256" by (rule mod_less_divisor) simp
  show ?thesis
  proof (cases "request_call E (tr @ [Randbits 256 ?x, Randbelow (2 ^ 31) ?rid]) u ?h ?rid")
    case (Inl e)
    with assms show ?thesis by (simp add: ring_eq Let_def)
  next
    case (Inr pc)
    with assms have
      "r = \<lparr>username = uname, status = SUCCESS, message = Text_call_lasted d\<rparr>"
      "tr3 = tr @ [Randbits 256 ?x, Randbelow (2 ^ 31) ?rid, Request_call u ?h ?rid,
                   Print (Line_calling (user_display u)), Sleep d,
                   Discard_call (call_id pc) (access_hash pc), Print (Line_done d)]"
      by (auto simp: ring_eq Let_def)
    with Inr x show ?thesis by blast
  qed
qed

lemmas call_defs = call_def call_try_def call_failed_def resolve_def send_pre_message_def ring_eq Let_def

lemmas run_defs = call_defs target_of_def strip_def isspace_def
  startswith_def isdigit_def isdigit_char_def quiet_env_def alice_def user_display_def

lemmas upper_defs = upper_def upper_char_def small_letters_def capital_letters_def

lemma lookups_append: "lookups (xs @ ys) = lookups xs @ lookups ys"
  by (induction xs rule: lookups.induct) auto

lemma discarded_append: "discarded (xs @ ys) = discarded xs @ discarded ys"
  by (induction xs rule: discarded.induct) auto

lemma sent_append: "sent (xs @ ys) = sent xs @ sent ys"
  by (induction xs rule: sent.induct) auto

lemma resolve_trace:
  assumes "resolve E t tr = (r, tr1)"
  shows "(tr1 = tr \<and> isdigit t \<and> py_int t = None \<and> (\<exists>m. r = Inl (ValueError m))) \<or>
         (\<exists>ref. tr1 = tr @ [Get_entity ref] \<and> r = get_entity E tr ref \<and>
            (if isdigit t then map_option By_id (py_int t) else Some (By_name t)) = Some ref)"
  using assms by (auto simp: resolve_def split: if_splits option.splits)

lemma send_pre_message_trace:
  assumes "send_pre_message E u msg tr1 = (r, tr2)"
  shows "\<exists>evs. tr2 = tr1 @ evs \<and> lookups evs = [] \<and> discarded evs = []"
  using assms by (auto simp: send_pre_message_def split: if_splits option.splits)

lemma ring_trace:
  assumes "ring E uname d u tr2 = (r, tr3)"
  shows "\<exists>evs. tr3 = tr2 @ evs \<and> lookups evs = [] \<and>
           (case r of
              Inl e \<Rightarrow> discarded evs = []
            | Inr res \<Rightarrow> res = \<lparr>username = uname, status = SUCCESS, message = Text_call_lasted d\<rparr>)"
proof -
  let ?x = "entropy E tr2 mod 2 ^ 256"
  let ?rid = "entropy E (tr2 @ [Randbits 256 ?x]) mod 2 ^ 31"
  let ?h = "sha256 E (big_endian 256 (3 ^ ?x mod DH_PRIME))"
  show ?thesis
  proof (cases "request_call E (tr2 @ [Randbits 256 ?x, Randbelow (2 ^ 31) ?rid]) u ?h ?rid")
    case (Inl e)
    with assms have r: "r = Inl e"
      and tr3: "tr3 = tr2 @ [Randbits 256 ?x, Randbelow (2 ^ 31) ?rid, Request_call u ?h ?rid]"
      by (simp_all add: ring_eq Let_def)
    show ?thesis
      by (rule exI [of _ "[Randbits 256 ?x, Randbelow (2 ^ 31) ?rid, Request_call u ?h ?rid]"])
        (simp add: r tr3)
  next
    case (Inr pc)
    with assms have r: "r = Inr \<lparr>username = uname, status = SUCCESS, message = Text_call_lasted d\<rparr>"
      and tr3: "tr3 = tr2 @ [Randbits 256 ?x, Randbelow (2 ^ 31) ?rid, Request_call u ?h ?rid,
                   Print (Line_calling (user_display u)), Sleep d,
                   Discard_call (call_id pc) (access_hash pc), Print (Line_done d)]"
      by (simp_all add: ring_eq Let_def)
    show ?thesis
      by (rule exI [of _ "[Randbits 256 ?x, Randbelow (2 ^ 31) ?rid, Request_call u ?h ?rid,
                   Print (Line_calling (user_display u)), Sleep d,
                   Discard_call (call_id pc) (access_hash pc), Print (Line_done d)]"])
        (simp add: r tr3)
  qed
qed

lemma call_try_trace:
  assumes "call_try E uname d msg tr = (r, tr')"
  shows "\<exists>evs. tr' = tr @ evs \<and>
           (if isdigit (target_of uname) \<and> py_int (target_of uname) = None then evs = []
            else \<exists>ref rest. evs = Get_entity ref # rest \<and> lookups rest = [] \<and>
                   (if isdigit (target_of uname) then map_option By_id (py_int (target_of uname))
                    else Some (By_name (target_of uname))) = Some ref) \<and>
           (case r of
              Inl e \<Rightarrow> discarded evs = []
            | Inr res \<Rightarrow> username res = uname \<and> (discarded evs \<noteq> [] \<longrightarrow> status res = SUCCESS))"
proof -
  obtain r0 tr1 where res: "resolve E (target_of uname) tr = (r0, tr1)"
    by (cases "resolve E (target_of uname) tr")
  from resolve_trace [OF res] show ?thesis
  proof
    assume a: "tr1 = tr \<and> isdigit (target_of uname) \<and> py_int (target_of uname) = None \<and> (\<exists>m. r0 = Inl (ValueError m))"
    then show ?thesis using assms res by (auto simp: call_try_def)
  next
    assume "\<exists>ref. tr1 = tr @ [Get_entity ref] \<and> r0 = get_entity E tr ref \<and>
            (if isdigit (target_of uname) then map_option By_id (py_int (target_of uname))
             else Some (By_name (target_of uname))) = Some ref"
    then obtain ref where ref: "tr1 = tr @ [Get_entity ref]"
      "(if isdigit (target_of uname) then map_option By_id (py_int (target_of uname))
             else Some (By_name (target_of uname))) = Some ref" by blast
    then have nofail: "\<not> (isdigit (target_of uname) \<and> py_int (target_of uname) = None)"
      by (auto split: if_splits)
    show ?thesis
    proof (cases r0)
      case (Inl e)
      then show ?thesis using assms res ref nofail
        by (cases e) (auto simp: call_try_def)
    next
      case (Inr u)
      obtain s tr2 where snd: "send_pre_message E u msg tr1 = (s, tr2)"
        by (cases "send_pre_message E u msg tr1")
      from send_pre_message_trace [OF snd] obtain evs2 where
        evs2: "tr2 = tr1 @ evs2" "lookups evs2 = []" "discarded evs2 = []" by blast
      show ?thesis
      proof (cases s)
        case (Some e)
        then show ?thesis using assms res Inr snd evs2 ref nofail
          by (auto simp: call_try_def)
      next
        case None
        then have rng: "ring E uname d u tr2 = (r, tr')"
          using assms res Inr snd by (simp add: call_try_def)
        from ring_trace [OF rng] obtain evs3 where
          evs3: "tr' = tr2 @ evs3" "lookups evs3 = []"
            "(case r of Inl e \<Rightarrow> discarded evs3 = []
              | Inr res \<Rightarrow> res = \<lparr>username = uname, status = SUCCESS, message = Text_call_lasted d\<rparr>)"
          by blast
        have "tr' = tr @ Get_entity ref # (evs2 @ evs3)" using evs3 evs2 ref by simp
        moreover have "lookups (evs2 @ evs3) = []" using evs2 evs3 by (simp add: lookups_append)
        moreover have "case r of Inl e \<Rightarrow> discarded (Get_entity ref # (evs2 @ evs3)) = []
            | Inr res \<Rightarrow> username res = uname \<and> (discarded (Get_entity ref # (evs2 @ evs3)) \<noteq> [] \<longrightarrow> status res = SUCCESS)"
          using evs2 evs3 by (auto simp: discarded_append split: sum.splits)
        ultimately show ?thesis using ref nofail by auto
      qed
    qed
  qed
qed

lemma call_result:
  "case call_try E uname duration msg tr of
      (Inr r, tr1) \<Rightarrow> call E uname duration msg tr = (r, tr1)
    | (Inl e, tr1) \<Rightarrow>
        (\<exists>r l. call E uname duration msg tr = (r, tr1 @ [Print l]) \<and> username r = uname \<and>
               status r \<in> {PRIVACY, FLOOD, FAILED})"
  by (auto simp: call_def call_failed_def split: prod.splits sum.splits exn.splits)

lemma resolve_discard_update: "resolve (E\<lparr>discard_call := dc\<rparr>) t tr = resolve E t tr"
  by (simp add: resolve_def split: option.splits)

lemma send_discard_update: "send_pre_message (E\<lparr>discard_call := dc\<rparr>) u msg tr = send_pre_message E u msg tr"
  by (simp add: send_pre_message_def split: option.splits)

lemma ring_discard_update: "ring (E\<lparr>discard_call := dc\<rparr>) uname d u tr = ring E uname d u tr"
  by (simp add: ring_eq)

lemma call_try_discard_update:
  "call_try (E\<lparr>discard_call := dc\<rparr>) uname d msg tr = call_try E uname d msg tr"
  by (simp only: call_try_def resolve_discard_update send_discard_update ring_discard_update)

lemma call_trace:
  "\<exists>r0 evs extra. call_try E uname d msg tr = (r0, tr @ evs) \<and>
      snd (call E uname d msg tr) = tr @ evs @ extra \<and> discarded extra = [] \<and> lookups extra = [] \<and>
      (case r0 of Inl e \<Rightarrow> status (fst (call E uname d msg tr)) \<in> {PRIVACY, FLOOD, FAILED}
       | Inr res \<Rightarrow> fst (call E uname d msg tr) = res) \<and>
      username (fst (call E uname d msg tr)) = uname"
proof -
  obtain r0 tr' where ct: "call_try E uname d msg tr = (r0, tr')"
    by (cases "call_try E uname d msg tr")
  from call_try_trace [OF ct] obtain evs where
    evs: "tr' = tr @ evs"
      "case r0 of Inl e \<Rightarrow> discarded evs = []
       | Inr res \<Rightarrow> username res = uname \<and> (discarded evs \<noteq> [] \<longrightarrow> status res = SUCCESS)"
    by blast
  show ?thesis
  proof (cases r0)
    case (Inr res)
    then have "call E uname d msg tr = (res, tr @ evs)" using ct evs by (simp add: call_def)
    then show ?thesis using ct evs Inr
      by (intro exI [of _ r0] exI [of _ evs] exI [of _ "[]"]) simp
  next
    case (Inl e)
    from call_result [of E uname d msg tr] obtain r l where
      c: "call E uname d msg tr = (r, tr' @ [Print l])" "username r = uname" "status r \<in> {PRIVACY, FLOOD, FAILED}"
      using ct Inl by auto
    then show ?thesis using ct evs Inl
      by (intro exI [of _ r0] exI [of _ evs] exI [of _ "[Print l]"]) simp
  qed
qed

section \<open>Placing a call: results\<close>

text \<open>
  C4. On the success path, that is whenever \<open>call\<close> returns \<open>SUCCESS\<close>, its events are,
  in this order: the lookup of the entity the normalised target stands for; then, only
  for a message that is set and not empty, the sending of the message and a pause of
  0.3 seconds; then the draw of the 256-bit exponent and of the random id; then the
  call request, carrying the digest of \<open>g_a\<close>; then a printed line and the sleep of the
  ring duration; then the discard of the call; then a printed line.
\<close>

theorem call_success_order:
  assumes "status (fst (call E uname duration msg tr)) = SUCCESS"
  shows "\<exists>ref u x rid (pc :: phone_call).
           (if isdigit (target_of uname) then map_option By_id (py_int (target_of uname))
            else Some (By_name (target_of uname))) = Some ref \<and>
           get_entity E tr ref = Inr u \<and> x < 2 ^ 256 \<and>
           snd (call E uname duration msg tr) =
             tr @ [Get_entity ref]
                @ (case msg of None \<Rightarrow> []
                   | Some m \<Rightarrow> if m \<noteq> [] then [Send_message u m, Sleep 0.3] else [])
                @ [Randbits 256 x, Randbelow (2 ^ 31) rid,
                   Request_call u (sha256 E (big_endian 256 (3 ^ x mod DH_PRIME))) rid,
                   Print (Line_calling (user_display u)), Sleep duration,
                   Discard_call (call_id pc) (access_hash pc), Print (Line_done duration)]"
proof -
  from call_SUCCESS [OF assms] obtain u tr1 tr2 r where
    res: "resolve E (target_of uname) tr = (Inr u, tr1)" and
    snd: "send_pre_message E u msg tr1 = (None, tr2)" and
    rng: "ring E uname duration u tr2 = (Inr r, snd (call E uname duration msg tr))"
    by blast
  from resolve_Inr [OF res] obtain ref where
    ref: "tr1 = tr @ [Get_entity ref]" "get_entity E tr ref = Inr u"
      "(if isdigit (target_of uname) then map_option By_id (py_int (target_of uname))
        else Some (By_name (target_of uname))) = Some ref"
    by blast
  note tr2 = send_pre_message_None [OF snd]
  from ring_Inr [OF rng] obtain x rid and pc :: phone_call where
    x: "x < 2 ^ 256" and
    tr3: "snd (call E uname duration msg tr) =
            tr2 @ [Randbits 256 x, Randbelow (2 ^ 31) rid,
                   Request_call u (sha256 E (big_endian 256 (3 ^ x mod DH_PRIME))) rid,
                   Print (Line_calling (user_display u)), Sleep duration,
                   Discard_call (call_id pc) (access_hash pc), Print (Line_done duration)]"
    by blast
  show ?thesis
    apply (rule exI [of _ ref], rule exI [of _ u], rule exI [of _ x], rule exI [of _ rid], rule exI [of _ pc])
    using ref x tr3 tr2 by simp
qed

text \<open>
  C4 in the sample outside: the call of \<open>@alice\<close> with the message \<open>hi\<close> and a ring
  of five seconds succeeds, and its events are the ten of the success path.
\<close>

theorem call_success_order_witness:
  "status (fst (call quiet_env ''@alice'' 5 (Some ''hi'') [])) = SUCCESS \<and>
   snd (call quiet_env ''@alice'' 5 (Some ''hi'') []) =
     [Get_entity (By_name ''alice''), Send_message alice ''hi'', Sleep 0.3,
      Randbits 256 3, Randbelow (2 ^ 31) 4, Request_call alice (replicate 32 0) 4,
      Print (Line_calling ''@alice''), Sleep 5, Discard_call 11 13, Print (Line_done 5)]"
proof -
  have s: "status (fst (call quiet_env ''@alice'' 5 (Some ''hi'') [])) = SUCCESS"
    by (simp add: run_defs)
  from call_success_order [OF s] s show ?thesis
    by (simp add: run_defs)
qed

text \<open>
  C9. \<open>call\<close> returns a \<open>CallResult\<close> whatever the client does: what the \<open>try\<close> block
  returns is returned, and every exception that leaves it is turned into a result for
  the same username, with a status among \<open>PRIVACY\<close>, \<open>FLOOD\<close> and \<open>FAILED\<close>, and one
  printed line. What the discard raises changes nothing: \<open>call\<close> is the same for every
  behaviour \<open>dc\<close> of the discard, and a call that got as far as the discard returns
  \<open>SUCCESS\<close>. The exceptions are the instances of \<open>Exception\<close>.
\<close>

theorem call_never_raises:
  "(case call_try E uname duration msg tr of
      (Inr r, tr1) \<Rightarrow> call E uname duration msg tr = (r, tr1)
    | (Inl e, tr1) \<Rightarrow>
        (\<exists>r l. call E uname duration msg tr = (r, tr1 @ [Print l]) \<and> username r = uname \<and>
               status r \<in> {PRIVACY, FLOOD, FAILED})) \<and>
   call (E\<lparr>discard_call := dc\<rparr>) uname duration msg tr = call E uname duration msg tr \<and>
   (\<forall>evs. snd (call E uname duration msg tr) = tr @ evs \<longrightarrow> discarded evs \<noteq> []
      \<longrightarrow> status (fst (call E uname duration msg tr)) = SUCCESS)"
proof (intro conjI allI impI)
  show "case call_try E uname duration msg tr of
      (Inr r, tr1) \<Rightarrow> call E uname duration msg tr = (r, tr1)
    | (Inl e, tr1) \<Rightarrow>
        (\<exists>r l. call E uname duration msg tr = (r, tr1 @ [Print l]) \<and> username r = uname \<and>
               status r \<in> {PRIVACY, FLOOD, FAILED})"
    by (rule call_result)
  show "call (E\<lparr>discard_call := dc\<rparr>) uname duration msg tr = call E uname duration msg tr"
    by (simp only: call_def call_try_discard_update)
next
  fix evs
  assume tr: "snd (call E uname duration msg tr) = tr @ evs" and d: "discarded evs \<noteq> []"
  from call_trace [of E uname duration msg tr] obtain r0 evs0 extra where
    ct: "call_try E uname duration msg tr = (r0, tr @ evs0)" and
    sn: "snd (call E uname duration msg tr) = tr @ evs0 @ extra" and
    ex: "discarded extra = []" and
    r0: "case r0 of Inl e \<Rightarrow> status (fst (call E uname duration msg tr)) \<in> {PRIVACY, FLOOD, FAILED}
       | Inr res \<Rightarrow> fst (call E uname duration msg tr) = res"
    by blast
  from tr sn have "evs = evs0 @ extra" by simp
  with d ex have d0: "discarded evs0 \<noteq> []" by (simp add: discarded_append)
  from call_try_trace [OF ct] obtain evs1 where
    e1: "tr @ evs0 = tr @ evs1"
      "case r0 of Inl e \<Rightarrow> discarded evs1 = []
       | Inr res \<Rightarrow> username res = uname \<and> (discarded evs1 \<noteq> [] \<longrightarrow> status res = SUCCESS)"
    by blast
  then have "evs1 = evs0" by simp
  with e1 d0 r0 show "status (fst (call E uname duration msg tr)) = SUCCESS"
    by (cases r0) auto
qed

text \<open>
  C9 at a discard that always raises, where the call still succeeds, and at a lookup
  that raises, where the call returns \<open>FAILED\<close>.
\<close>

theorem call_never_raises_witness:
  "call (quiet_env\<lparr>discard_call := (\<lambda>tr i a. Some (OtherException ''CALL_ALREADY_DECLINED''))\<rparr>)
       ''@alice'' 5 None [] =
     (\<lparr>username = ''@alice'', status = SUCCESS, message = Text_call_lasted 5\<rparr>,
      [Get_entity (By_name ''alice''),
       Randbits 256 1, Randbelow (2 ^ 31) 2, Request_call alice (replicate 32 0) 2,
       Print (Line_calling ''@alice''), Sleep 5, Discard_call 11 13, Print (Line_done 5)]) \<and>
   call (quiet_env\<lparr>get_entity := (\<lambda>tr r. Inl (OtherException ''Cannot find any entity''))\<rparr>)
       ''@alice'' 5 None [] =
     (\<lparr>username = ''@alice'', status = FAILED, message = Text_of ''Cannot find any entity''\<rparr>,
      [Get_entity (By_name ''alice''), Print (Line_error ''@alice'' ''Cannot find any entity'')])"
proof -
  let ?E = "quiet_env\<lparr>get_entity := (\<lambda>tr r. Inl (OtherException ''Cannot find any entity''))\<rparr>"
  have "call (quiet_env\<lparr>discard_call := (\<lambda>tr i a. Some (OtherException ''CALL_ALREADY_DECLINED''))\<rparr>)
       ''@alice'' 5 None [] = call quiet_env ''@alice'' 5 None []"
    using call_never_raises [of quiet_env "''@alice''" 5 None "[]"] by simp
  moreover have "call quiet_env ''@alice'' 5 None [] =
     (\<lparr>username = ''@alice'', status = SUCCESS, message = Text_call_lasted 5\<rparr>,
      [Get_entity (By_name ''alice''),
       Randbits 256 1, Randbelow (2 ^ 31) 2, Request_call alice (replicate 32 0) 2,
       Print (Line_calling ''@alice''), Sleep 5, Discard_call 11 13, Print (Line_done 5)])"
    by (simp add: run_defs)
  moreover have "call ?E ''@alice'' 5 None [] =
     (\<lparr>username = ''@alice'', status = FAILED, message = Text_of ''Cannot find any entity''\<rparr>,
      [Get_entity (By_name ''alice''), Print (Line_error ''@alice'' ''Cannot find any entity'')])"
    by (simp add: run_defs upper_defs)
  ultimately show ?thesis by simp
qed

text \<open>
  C6. The \<open>CallResult\<close> of \<open>call\<close> carries the username as it was given. The target
  that is looked up is the username with the surrounding whitespace stripped and then
  one leading \<open>@\<close> removed: the first event of the call is the lookup of that target, by
  number when it is all digits and by name otherwise, and no other lookup follows. The
  only case without a lookup is a target of digits that \<open>int\<close> does not read, which
  gives \<open>NOT_FOUND\<close>.
\<close>

theorem call_normalizes_target:
  "username (fst (call E uname duration msg tr)) = uname \<and>
   target_of uname =
     (case strip uname of [] \<Rightarrow> [] | c # cs \<Rightarrow> if c = CHR ''@'' then cs else c # cs) \<and>
   (\<exists>evs. snd (call E uname duration msg tr) = tr @ evs \<and>
      (if isdigit (target_of uname) \<and> py_int (target_of uname) = None
       then lookups evs = [] \<and> status (fst (call E uname duration msg tr)) = NOT_FOUND
       else \<exists>ref rest. evs = Get_entity ref # rest \<and> lookups rest = [] \<and>
              (if isdigit (target_of uname) then map_option By_id (py_int (target_of uname))
               else Some (By_name (target_of uname))) = Some ref))"
proof (intro conjI)
  from call_trace [of E uname duration msg tr] obtain r0 evs extra where
    ct: "call_try E uname duration msg tr = (r0, tr @ evs)" and
    sn: "snd (call E uname duration msg tr) = tr @ evs @ extra" and
    ex: "lookups extra = []" and
    r0: "case r0 of Inl e \<Rightarrow> status (fst (call E uname duration msg tr)) \<in> {PRIVACY, FLOOD, FAILED}
       | Inr res \<Rightarrow> fst (call E uname duration msg tr) = res" and
    un: "username (fst (call E uname duration msg tr)) = uname"
    by blast
  show "username (fst (call E uname duration msg tr)) = uname" by (rule un)
  show "target_of uname =
     (case strip uname of [] \<Rightarrow> [] | c # cs \<Rightarrow> if c = CHR ''@'' then cs else c # cs)"
    by (simp add: target_of_def startswith_def Let_def split: list.splits)
  from call_try_trace [OF ct] obtain evs1 where
    e1: "tr @ evs = tr @ evs1" and
    sh: "if isdigit (target_of uname) \<and> py_int (target_of uname) = None then evs1 = []
         else \<exists>ref rest. evs1 = Get_entity ref # rest \<and> lookups rest = [] \<and>
                (if isdigit (target_of uname) then map_option By_id (py_int (target_of uname))
                 else Some (By_name (target_of uname))) = Some ref"
    by blast
  from e1 have eq: "evs1 = evs" by simp
  show "\<exists>evs. snd (call E uname duration msg tr) = tr @ evs \<and>
      (if isdigit (target_of uname) \<and> py_int (target_of uname) = None
       then lookups evs = [] \<and> status (fst (call E uname duration msg tr)) = NOT_FOUND
       else \<exists>ref rest. evs = Get_entity ref # rest \<and> lookups rest = [] \<and>
              (if isdigit (target_of uname) then map_option By_id (py_int (target_of uname))
               else Some (By_name (target_of uname))) = Some ref)"
  proof (cases "isdigit (target_of uname) \<and> py_int (target_of uname) = None")
    case True
    then have "resolve E (target_of uname) tr = (Inl (ValueError ''invalid literal for int()''), tr)"
      by (simp add: resolve_def)
    then have "call E uname duration msg tr =
        (\<lparr>username = uname, status = NOT_FOUND, message = Text_user_not_found\<rparr>, tr)"
      by (simp add: call_def call_try_def)
    then show ?thesis using True by simp
  next
    case False
    with sh eq obtain ref rest where
      rr: "evs = Get_entity ref # rest" "lookups rest = []"
        "(if isdigit (target_of uname) then map_option By_id (py_int (target_of uname))
          else Some (By_name (target_of uname))) = Some ref"
      by auto
    have "snd (call E uname duration msg tr) = tr @ Get_entity ref # (rest @ extra)"
      using sn rr by simp
    moreover have "lookups (rest @ extra) = []" using rr ex by (simp add: lookups_append)
    ultimately show ?thesis using False rr(3) by auto
  qed
qed

text \<open>
  C6 at a username with blanks around it and a leading \<open>@\<close>, looked up as \<open>alice\<close>, and
  at a number with blanks around it, looked up as the integer 123.
\<close>

theorem call_normalizes_target_witness:
  "target_of ''  @alice '' = ''alice'' \<and>
   call quiet_env ''  @alice '' 5 None [] =
     (\<lparr>username = ''  @alice '', status = SUCCESS, message = Text_call_lasted 5\<rparr>,
      [Get_entity (By_name ''alice''),
       Randbits 256 1, Randbelow (2 ^ 31) 2, Request_call alice (replicate 32 0) 2,
       Print (Line_calling ''@alice''), Sleep 5, Discard_call 11 13, Print (Line_done 5)]) \<and>
   lookups (snd (call quiet_env '' 123 '' 5 None [])) = [By_id 123] \<and>
   username (fst (call quiet_env '' 123 '' 5 None [])) = '' 123 ''"
proof -
  have "username (fst (call quiet_env '' 123 '' 5 None [])) = '' 123 ''"
    using call_normalizes_target [of quiet_env "'' 123 ''" 5 None "[]"] by simp
  moreover have "target_of ''  @alice '' = ''alice''"
    using call_normalizes_target [of quiet_env "''  @alice ''" 5 None "[]"]
    by (simp add: strip_def isspace_def)
  moreover have "call quiet_env ''  @alice '' 5 None [] =
     (\<lparr>username = ''  @alice '', status = SUCCESS, message = Text_call_lasted 5\<rparr>,
      [Get_entity (By_name ''alice''),
       Randbits 256 1, Randbelow (2 ^ 31) 2, Request_call alice (replicate 32 0) 2,
       Print (Line_calling ''@alice''), Sleep 5, Discard_call 11 13, Print (Line_done 5)])"
    by (simp add: run_defs)
  moreover have "lookups (snd (call quiet_env '' 123 '' 5 None [])) = [By_id 123]"
    by (simp add: run_defs int_defs)
  ultimately show ?thesis by simp
qed

text \<open>
  C3, as amended. A call attempt gives one \<open>CallResult\<close>, whose status is one of the
  five values, and the status is the documented one: \<open>NOT_FOUND\<close> when the target
  cannot be looked up or the lookup raises \<open>ValueError\<close>; for an exception raised by the
  lookup, by the sending of the message or by the call request, \<open>PRIVACY\<close> for
  \<open>UserPrivacyRestrictedError\<close>, \<open>FLOOD\<close> for \<open>FloodWaitError\<close>, and for any other
  \<open>FAILED\<close>, or \<open>PRIVACY\<close> when its text in capitals holds the word \<open>PRIVACY\<close>; and
  \<open>SUCCESS\<close> once the call request is answered. An exception of the discard is ignored:
  the status is the same for every behaviour \<open>dc\<close> of the discard.
\<close>

lemma send_pre_message_eq:
  "send_pre_message E u msg tr1 =
     (let m = (case msg of None \<Rightarrow> [] | Some m \<Rightarrow> m)
      in if m \<noteq> [] then
           (case send_message E tr1 u m of
              Some e \<Rightarrow> (Some e, tr1 @ [Send_message u m])
            | None \<Rightarrow> (None, tr1 @ [Send_message u m, Sleep 0.3]))
         else (None, tr1))"
  by (cases msg) (simp_all add: send_pre_message_def)

lemma call_handled:
  assumes "call_try E uname duration msg tr = (Inl e, tr1)"
  shows "status (fst (call E uname duration msg tr)) = handled_status e"
  using assms by (cases e) (simp_all add: call_def call_failed_def handled_status_def)

theorem call_status_mapping:
  "status (fst (call E uname duration msg tr)) = documented_status E uname msg tr \<and>
   status (fst (call (E\<lparr>discard_call := dc\<rparr>) uname duration msg tr)) =
     status (fst (call E uname duration msg tr))"
proof
  let ?t = "target_of uname"
  show "status (fst (call E uname duration msg tr)) = documented_status E uname msg tr"
  proof (cases "if isdigit ?t then map_option By_id (py_int ?t) else Some (By_name ?t)")
    case None
    then have "isdigit ?t \<and> py_int ?t = None" by (auto split: if_splits)
    then show ?thesis
      using None by (simp add: documented_status_def call_def call_try_def resolve_def)
  next
    case (Some ref)
    then have res: "resolve E ?t tr = (get_entity E tr ref, tr @ [Get_entity ref])"
      by (auto simp: resolve_def split: if_splits)
    show ?thesis
    proof (cases "get_entity E tr ref")
      case (Inl e)
      show ?thesis
      proof (cases "\<exists>m. e = ValueError m")
        case True
        then show ?thesis using Some res Inl
          by (auto simp: documented_status_def call_def call_try_def)
      next
        case False
        then have "call_try E uname duration msg tr = (Inl e, tr @ [Get_entity ref])"
          using res Inl by (cases e) (simp_all add: call_try_def)
        from call_handled [OF this] show ?thesis using Some Inl False
          by (cases e) (simp_all add: documented_status_def)
      qed
    next
      case (Inr u)
      let ?tr1 = "tr @ [Get_entity ref]"
      let ?m = "case msg of None \<Rightarrow> [] | Some m \<Rightarrow> m"
      show ?thesis
      proof (cases "if ?m \<noteq> [] then send_message E ?tr1 u ?m else None")
        case (Some e)
        then have sp: "send_pre_message E u msg ?tr1 = (Some e, ?tr1 @ [Send_message u ?m])"
          by (simp add: send_pre_message_eq split: if_splits)
        then have "call_try E uname duration msg tr = (Inl e, ?tr1 @ [Send_message u ?m])"
          using res Inr by (simp add: call_try_def)
        from call_handled [OF this] show ?thesis using \<open>_ = Some ref\<close> Inr Some
          by (simp add: documented_status_def Let_def)
      next
        case None
        let ?tr2 = "if ?m \<noteq> [] then ?tr1 @ [Send_message u ?m, Sleep 0.3] else ?tr1"
        from None have sp: "send_pre_message E u msg ?tr1 = (None, ?tr2)"
          by (simp add: send_pre_message_eq split: if_splits)
        then have ct: "call_try E uname duration msg tr = ring E uname duration u ?tr2"
          using res Inr by (simp add: call_try_def)
        let ?x = "entropy E ?tr2 mod 2 ^ 256"
        let ?h = "sha256 E (big_endian 256 (3 ^ ?x mod DH_PRIME))"
        let ?rid = "entropy E (?tr2 @ [Randbits 256 ?x]) mod 2 ^ 31"
        show ?thesis
        proof (cases "request_call E (?tr2 @ [Randbits 256 ?x, Randbelow (2 ^ 31) ?rid]) u ?h ?rid")
          case (Inl e)
          then have "call_try E uname duration msg tr =
              (Inl e, ?tr2 @ [Randbits 256 ?x, Randbelow (2 ^ 31) ?rid, Request_call u ?h ?rid])"
            unfolding ct ring_eq Let_def by simp
          from call_handled [OF this] show ?thesis using \<open>_ = Some ref\<close> Inr None Inl
            by (simp add: documented_status_def Let_def)
        next
          case (Inr pc)
          then have "fst (call_try E uname duration msg tr) =
              Inr \<lparr>username = uname, status = SUCCESS, message = Text_call_lasted duration\<rparr>"
            unfolding ct ring_eq Let_def by simp
          then have "status (fst (call E uname duration msg tr)) = SUCCESS"
            by (cases "call_try E uname duration msg tr") (simp add: call_def)
          then show ?thesis using \<open>_ = Some ref\<close> \<open>get_entity E tr ref = Inr u\<close> None Inr
            by (simp add: documented_status_def Let_def)
        qed
      qed
    qed
  qed
  show "status (fst (call (E\<lparr>discard_call := dc\<rparr>) uname duration msg tr)) =
     status (fst (call E uname duration msg tr))"
    by (simp only: call_def call_try_discard_update)
qed

lemmas status_defs = documented_status_def handled_status_def target_of_def strip_def isspace_def
  startswith_def isdigit_def isdigit_char_def quiet_env_def alice_def Let_def

text \<open>
  C3 as amended, at a call request that raises \<open>UserPrivacyRestrictedError\<close>, at a
  message whose sending raises \<open>FloodWaitError\<close>, at a lookup that raises \<open>ValueError\<close>, and
  at a discard that raises \<open>FloodWaitError\<close>, which is ignored.
\<close>

theorem call_status_mapping_witness:
  "status (fst (call (quiet_env\<lparr>request_call := (\<lambda>tr u h rid. Inl UserPrivacyRestrictedError)\<rparr>)
       ''bob'' 5 None [])) = PRIVACY \<and>
   status (fst (call (quiet_env\<lparr>send_message := (\<lambda>tr u m. Some (FloodWaitError 30))\<rparr>)
       ''bob'' 5 (Some ''hi'') [])) = FLOOD \<and>
   status (fst (call (quiet_env\<lparr>get_entity := (\<lambda>tr r. Inl (ValueError ''No user has bob as username''))\<rparr>)
       ''bob'' 5 None [])) = NOT_FOUND \<and>
   status (fst (call (quiet_env\<lparr>discard_call := (\<lambda>tr i a. Some (FloodWaitError 30))\<rparr>)
       ''bob'' 5 None [])) = SUCCESS"
proof -
  let ?E = "quiet_env\<lparr>request_call := (\<lambda>tr u h rid. Inl UserPrivacyRestrictedError)\<rparr>"
  let ?S = "quiet_env\<lparr>send_message := (\<lambda>tr u m. Some (FloodWaitError 30))\<rparr>"
  let ?F = "quiet_env\<lparr>get_entity := (\<lambda>tr r. Inl (ValueError ''No user has bob as username''))\<rparr>"
  have "status (fst (call ?E ''bob'' 5 None [])) = documented_status ?E ''bob'' None []"
    using call_status_mapping [of ?E "''bob''" 5 None "[]"] by blast
  moreover have "documented_status ?E ''bob'' None [] = PRIVACY"
    by (simp add: status_defs)
  moreover have "status (fst (call ?S ''bob'' 5 (Some ''hi'') [])) = documented_status ?S ''bob'' (Some ''hi'') []"
    using call_status_mapping [of ?S "''bob''" 5 "Some ''hi''" "[]"] by blast
  moreover have "documented_status ?S ''bob'' (Some ''hi'') [] = FLOOD"
    by (simp add: status_defs)
  moreover have "status (fst (call ?F ''bob'' 5 None [])) = documented_status ?F ''bob'' None []"
    using call_status_mapping [of ?F "''bob''" 5 None "[]"] by blast
  moreover have "documented_status ?F ''bob'' None [] = NOT_FOUND"
    by (simp add: status_defs)
  moreover have "status (fst (call (quiet_env\<lparr>discard_call := (\<lambda>tr i a. Some (FloodWaitError 30))\<rparr>)
       ''bob'' 5 None [])) = documented_status quiet_env ''bob'' None []"
    using call_status_mapping [of quiet_env "''bob''" 5 None "[]" "\<lambda>tr i a. Some (FloodWaitError 30)"]
    by simp
  moreover have "documented_status quiet_env ''bob'' None [] = SUCCESS"
    by (simp add: status_defs)
  ultimately show ?thesis by simp
qed

text \<open>
  C3 as stated fails: the call request raises an exception that is neither of the two
  Telethon errors nor a \<open>ValueError\<close>, with a text that holds the word \<open>PRIVACY\<close>, and the
  status is \<open>PRIVACY\<close>, not \<open>FAILED\<close>.
\<close>

theorem call_status_mapping_counterexample:
  "call_try (quiet_env\<lparr>request_call := (\<lambda>tr u h rid. Inl (OtherException ''RPCError 406: PRIVACY_PREMIUM_REQUIRED''))\<rparr>)
       ''bob'' 5 None [] =
     (Inl (OtherException ''RPCError 406: PRIVACY_PREMIUM_REQUIRED''),
      [Get_entity (By_name ''bob''), Randbits 256 1, Randbelow (2 ^ 31) 2,
       Request_call alice (replicate 32 0) 2]) \<and>
   status (fst (call (quiet_env\<lparr>request_call := (\<lambda>tr u h rid. Inl (OtherException ''RPCError 406: PRIVACY_PREMIUM_REQUIRED''))\<rparr>)
       ''bob'' 5 None [])) = PRIVACY \<and>
   PRIVACY \<noteq> FAILED"
  by (simp add: run_defs upper_defs)

text \<open>
  C8, as amended. When an exception other than the two Telethon errors leaves the
  \<open>try\<close> block and its text, in capitals, does not contain \<open>PRIVACY\<close>, the result has
  the status \<open>FAILED\<close> and carries the whole text of the exception; the line printed
  carries the first 50 characters of it.
\<close>

theorem generic_failure_message:
  assumes "call_try E uname duration msg tr = (Inl e, tr1)"
    and "e = ValueError m \<or> e = OtherException m"
    and "\<not> contains (upper m) ''PRIVACY''"
  shows "call E uname duration msg tr =
           (\<lparr>username = uname, status = FAILED, message = Text_of m\<rparr>,
            tr1 @ [Print (Line_error uname (take 50 m))])"
  using assms by (auto simp: call_def call_failed_def)

text \<open>C8 as amended, at a call request that raises an exception with a text of 72 characters.\<close>

theorem generic_failure_message_witness:
  "call (quiet_env\<lparr>request_call := (\<lambda>tr u h rid.
           Inl (OtherException ''RPCError 400: CALL_PROTOCOL_FLAGS_INVALID (caused by RequestCallRequest)''))\<rparr>)
       ''bob'' 5 None [] =
     (\<lparr>username = ''bob'', status = FAILED,
        message = Text_of ''RPCError 400: CALL_PROTOCOL_FLAGS_INVALID (caused by RequestCallRequest)''\<rparr>,
      [Get_entity (By_name ''bob''), Randbits 256 1, Randbelow (2 ^ 31) 2,
       Request_call alice (replicate 32 0) 2,
       Print (Line_error ''bob'' ''RPCError 400: CALL_PROTOCOL_FLAGS_INVALID (caused '')])"
proof -
  let ?m = "''RPCError 400: CALL_PROTOCOL_FLAGS_INVALID (caused by RequestCallRequest)''"
  let ?E = "quiet_env\<lparr>request_call := (\<lambda>tr u h rid. Inl (OtherException ?m))\<rparr>"
  let ?tr = "[Get_entity (By_name ''bob''), Randbits 256 1, Randbelow (2 ^ 31) 2,
       Request_call alice (replicate 32 0) 2]"
  have ct: "call_try ?E ''bob'' 5 None [] = (Inl (OtherException ?m), ?tr)"
    by (simp add: run_defs)
  have np: "\<not> contains (upper ?m) ''PRIVACY''"
    by (simp add: upper_defs startswith_def)
  from generic_failure_message [OF ct _ np] show ?thesis by simp
qed

text \<open>
  C8 as stated fails: for that exception the message of the result is the whole text
  of 72 characters, which is not the text cut to the 50 characters that are printed.
\<close>

theorem generic_failure_message_counterexample:
  "message (fst (call (quiet_env\<lparr>request_call := (\<lambda>tr u h rid.
           Inl (OtherException ''RPCError 400: CALL_PROTOCOL_FLAGS_INVALID (caused by RequestCallRequest)''))\<rparr>)
       ''bob'' 5 None [])) =
     Text_of ''RPCError 400: CALL_PROTOCOL_FLAGS_INVALID (caused by RequestCallRequest)'' \<and>
   take 50 ''RPCError 400: CALL_PROTOCOL_FLAGS_INVALID (caused by RequestCallRequest)'' =
     ''RPCError 400: CALL_PROTOCOL_FLAGS_INVALID (caused '' \<and>
   Text_of ''RPCError 400: CALL_PROTOCOL_FLAGS_INVALID (caused by RequestCallRequest)'' \<noteq>
     Text_of ''RPCError 400: CALL_PROTOCOL_FLAGS_INVALID (caused ''"
  by (simp add: run_defs upper_defs)

section \<open>Several calls\<close>






section \<open>The prompt: results\<close>

text \<open>
  C1 fails on the code. With the message \<open>hello\<close> set and a ring of five seconds, the
  line \<open>@alice @bob\<close> gives two names, and the run places both calls with the ring of
  five seconds but sends no message, as \<open>call_multiple\<close> passes none to \<open>call\<close>; the line
  \<open>@alice\<close> alone sends the message before the call.
\<close>

theorem pre_message_dropped_for_several_targets:
  "parse_usernames ''@alice @bob'' = [''@alice'', ''@bob''] \<and>
   place_calls quiet_env 5 (Some ''hello'') ''@alice @bob'' [] =
     [Print (Line_calling_many 2),
      Print (Line_progress 1 2 ''@alice''),
      Get_entity (By_name ''alice''), Randbits 256 3, Randbelow (2 ^ 31) 4,
      Request_call alice (replicate 32 0) 4, Print (Line_calling ''@alice''),
      Sleep 5, Discard_call 11 13, Print (Line_done 5),
      Sleep 1,
      Print (Line_progress 2 2 ''@bob''),
      Get_entity (By_name ''bob''), Randbits 256 13, Randbelow (2 ^ 31) 14,
      Request_call alice (replicate 32 0) 14, Print (Line_calling ''@alice''),
      Sleep 5, Discard_call 11 13, Print (Line_done 5),
      Print Line_finished] \<and>
   sent (place_calls quiet_env 5 (Some ''hello'') ''@alice @bob'' []) = [] \<and>
   sent (place_calls quiet_env 5 (Some ''hello'') ''@alice'' []) = [(alice, ''hello'')]"
  by (simp add: place_calls_def call_multiple_def parse_usernames_def replace_char_def run_defs)

end
